theory Spec2Isabelle
  imports Main "HOL-Library.Word"
begin

section \<open>Shared pieces: error numbers, observable effects, logging\<close>

text \<open>
  The C functions return an \<open>int\<close> status (0 is success) and act on the world by
  logging, opening files and writing PDUs to sockets. The model keeps the \<open>int\<close> and
  returns, next to it, the list of effects in the order the code performs them.
\<close>

type_synonym byte = "8 word"

definition EINVAL :: int where
  "EINVAL = 22"

definition ENOMEM :: int where
  "ENOMEM = 12"

datatype event =
    Pr_err string "int list"
  | Pr_crit string
  | Pr_warn string "int list"
  | Pr_errno int string
  | Crypto_err string "int list"
  | Printf string string
  | File_open string
  | File_close string
  | Serial_notify_pdu int "8 word" "32 word"

text \<open>
  Modelled from the spec: the logging helpers of \<^verbatim>\<open>log.h\<close> (\<^verbatim>\<open>pr_err\<close>,
  \<^verbatim>\<open>pr_crit\<close>, \<^verbatim>\<open>pr_warn\<close>, \<^verbatim>\<open>pr_errno\<close>, \<^verbatim>\<open>pr_enomem\<close>,
  \<^verbatim>\<open>crypto_err\<close>) are not under src/. Each reports its message (format string and
  arguments) and hands back a failure status that its callers return unchanged: the
  spec's "fail", "fails loudly" and "crashes the cycle". The status is \<open>-EINVAL\<close>, and
  \<open>-ENOMEM\<close> for \<^verbatim>\<open>pr_enomem\<close>. The code under src/ never uses what \<^verbatim>\<open>pr_warn\<close> and
  \<^verbatim>\<open>pr_errno\<close> return, so these two are modelled by their effect alone.
\<close>

definition pr_err :: "string \<Rightarrow> int list \<Rightarrow> int \<times> event list" where
  "pr_err format args = (- EINVAL, [Pr_err format args])"

definition pr_crit :: "string \<Rightarrow> int \<times> event list" where
  "pr_crit format = (- EINVAL, [Pr_crit format])"

definition crypto_err :: "string \<Rightarrow> int list \<Rightarrow> int \<times> event list" where
  "crypto_err format args = (- EINVAL, [Crypto_err format args])"

definition pr_enomem :: "int \<times> event list" where
  "pr_enomem = (- ENOMEM, [Pr_err ''Out of memory.'' []])"

definition pr_warn :: "string \<Rightarrow> int list \<Rightarrow> event list" where
  "pr_warn format args = [Pr_warn format args]"

definition pr_errno :: "int \<Rightarrow> string \<Rightarrow> event list" where
  "pr_errno error format = [Pr_errno error format]"

section \<open>Resource sets\<close>

text \<open>
  Modelled from the spec: \<^verbatim>\<open>resource.h\<close> is not under src/. Following the data model,
  an IP range is an address family with a numeric start and an inclusive numeric end,
  an AS range is a pair of 32-bit AS numbers \<open>(min, max)\<close>, and a resource set is a
  pair of sequences, one of IP ranges and one of AS ranges. \<open>resources_empty\<close> is the
  spec's \<open>is_empty\<close>.
\<close>

datatype family = V4 | V6

record ip_range =
  ip_family :: family
  ip_start :: nat
  ip_end :: nat

type_synonym as_range = "32 word \<times> 32 word"

record resources =
  ips :: "ip_range list"
  asns :: "as_range list"

definition resources_empty :: "resources \<Rightarrow> bool" where
  "resources_empty r = (ips r = [] \<and> asns r = [])"

section \<open>The validation state (state.c)\<close>

datatype X509 = X509 string

datatype tal = TAL string

record X509_STORE_CTX =
  ctx_error :: int

record X509_STORE =
  verify_cb :: "(int \<Rightarrow> X509_STORE_CTX \<Rightarrow> int) option"

datatype pubkey_state = PKS_VALID | PKS_INVALID | PKS_UNTESTED

text \<open>
  \<^verbatim>\<open>struct validation\<close>. The certificate stack \<open>trusted\<close> is libcrypto's
  \<^verbatim>\<open>STACK_OF(X509)\<close>: index 0 is the bottom, \<^verbatim>\<open>sk_X509_push\<close> appends and
  \<^verbatim>\<open>sk_X509_pop\<close> takes the last element. The resource stack \<open>rsrcs\<close> is an
  \<^verbatim>\<open>SLIST\<close>: its head is the top.
\<close>

record validation =
  tal :: tal
  store :: X509_STORE
  trusted :: "X509 list"
  rsrcs :: "resources list"
  pubkey_state :: pubkey_state

subsection \<open>libcrypto and the resource stack, as state.c uses them\<close>

definition X509_V_OK :: int where
  "X509_V_OK = 0"

definition X509_V_ERR_CERT_HAS_EXPIRED :: int where
  "X509_V_ERR_CERT_HAS_EXPIRED = 10"

definition X509_V_ERR_UNHANDLED_CRITICAL_EXTENSION :: int where
  "X509_V_ERR_UNHANDLED_CRITICAL_EXTENSION = 34"

definition X509_STORE_CTX_get_error :: "X509_STORE_CTX \<Rightarrow> int" where
  "X509_STORE_CTX_get_error ctx = ctx_error ctx"

definition X509_STORE_new :: X509_STORE where
  "X509_STORE_new = \<lparr>verify_cb = None\<rparr>"

definition X509_STORE_set_verify_cb ::
  "X509_STORE \<Rightarrow> (int \<Rightarrow> X509_STORE_CTX \<Rightarrow> int) \<Rightarrow> X509_STORE" where
  "X509_STORE_set_verify_cb st f = st\<lparr>verify_cb := Some f\<rparr>"

text \<open>
  \<^verbatim>\<open>sk_X509_push\<close> returns the new number of elements, or 0 when it could not grow
  the stack (the boolean says which happens in this call).
\<close>

definition sk_X509_push :: "bool \<Rightarrow> X509 list \<Rightarrow> X509 \<Rightarrow> int \<times> X509 list" where
  "sk_X509_push grows sk x = (if grows then (int (length sk) + 1, sk @ [x]) else (0, sk))"

definition sk_X509_pop :: "X509 list \<Rightarrow> X509 option \<times> X509 list" where
  "sk_X509_pop sk = (if sk = [] then (None, sk) else (Some (last sk), butlast sk))"

definition sk_X509_num :: "X509 list \<Rightarrow> int" where
  "sk_X509_num sk = int (length sk)"

definition sk_X509_value :: "X509 list \<Rightarrow> int \<Rightarrow> X509 option" where
  "sk_X509_value sk i = (if 0 \<le> i \<and> i < int (length sk) then Some (sk ! nat i) else None)"

text \<open>
  Modelled from the spec: the \<^verbatim>\<open>restack_*\<close> functions of \<^verbatim>\<open>resource.c\<close> are not
  under src/. They are the push, the "symmetric pop" and the "top-of-stack reader" of
  the chain of resource sets; pop and peek of an empty stack give \<^verbatim>\<open>NULL\<close>.
\<close>

definition restack_push :: "resources list \<Rightarrow> resources \<Rightarrow> resources list" where
  "restack_push stack r = r # stack"

definition restack_pop :: "resources list \<Rightarrow> resources option \<times> resources list" where
  "restack_pop stack = (case stack of [] \<Rightarrow> (None, []) | r # rest \<Rightarrow> (Some r, rest))"

definition restack_peek :: "resources list \<Rightarrow> resources option" where
  "restack_peek stack = (case stack of [] \<Rightarrow> None | r # rest \<Rightarrow> Some r)"

subsection \<open>The verification callback\<close>

definition cb :: "int \<Rightarrow> X509_STORE_CTX \<Rightarrow> int" where
  "cb ok ctx =
     (let error = X509_STORE_CTX_get_error ctx
      in if error = X509_V_ERR_UNHANDLED_CRITICAL_EXTENSION then 1 else ok)"

subsection \<open>Creation and destruction\<close>

text \<open>
  What the allocations of one call of \<^verbatim>\<open>validation_prepare\<close> do:
  \<^verbatim>\<open>malloc\<close>, \<^verbatim>\<open>state_store\<close> (thread_var.c, its error code),
  \<^verbatim>\<open>X509_STORE_new\<close>, \<^verbatim>\<open>sk_X509_new_null\<close> and \<^verbatim>\<open>restack_create\<close>.
\<close>

record prepare_env =
  malloc_ok :: bool
  state_store_error :: int
  X509_STORE_new_ok :: bool
  sk_X509_new_null_ok :: bool
  restack_create_ok :: bool

text \<open>\<open>Inr state\<close> is "returns 0 with \<^verbatim>\<open>*out\<close> set"; \<open>Inl error\<close> is the error return.\<close>

definition validation_prepare :: "prepare_env \<Rightarrow> tal \<Rightarrow> (int + validation) \<times> event list" where
  "validation_prepare env t =
     (if \<not> malloc_ok env then (Inl (- ENOMEM), [])
      else if state_store_error env \<noteq> 0 then (Inl (state_store_error env), [])
      else if \<not> X509_STORE_new_ok env then
        (case crypto_err ''X509_STORE_new() returned NULL'' [] of
           (error, ev) \<Rightarrow> (Inl error, ev))
      else if \<not> sk_X509_new_null_ok env then
        (case crypto_err ''sk_X509_new_null() returned NULL'' [] of
           (error, ev) \<Rightarrow> (Inl error, ev))
      else if \<not> restack_create_ok env then (Inl (- ENOMEM), [])
      else
        (Inr \<lparr>tal = t,
              store = X509_STORE_set_verify_cb X509_STORE_new cb,
              trusted = [],
              rsrcs = [],
              pubkey_state = PKS_UNTESTED\<rparr>, []))"

text \<open>\<^verbatim>\<open>validation_destroy\<close> returns nothing; what it reports is its result here.\<close>

definition validation_destroy :: "validation \<Rightarrow> event list" where
  "validation_destroy state =
     (let cert_num = sk_X509_num (trusted state)
      in if cert_num \<noteq> 0 then
           snd (pr_err ''Error: validation state has %d certificates. (0 expected)'' [cert_num])
         else [])"

subsection \<open>Accessors and the public key status\<close>

definition validation_tal :: "validation \<Rightarrow> tal" where
  "validation_tal state = tal state"

definition validation_store :: "validation \<Rightarrow> X509_STORE" where
  "validation_store state = store state"

definition validation_certs :: "validation \<Rightarrow> X509 list" where
  "validation_certs state = trusted state"

definition validation_resources :: "validation \<Rightarrow> resources list" where
  "validation_resources state = rsrcs state"

definition validation_pubkey_valid :: "validation \<Rightarrow> validation" where
  "validation_pubkey_valid state = state\<lparr>pubkey_state := PKS_VALID\<rparr>"

definition validation_pubkey_invalid :: "validation \<Rightarrow> validation" where
  "validation_pubkey_invalid state = state\<lparr>pubkey_state := PKS_INVALID\<rparr>"

definition validation_pubkey_state :: "validation \<Rightarrow> pubkey_state" where
  "validation_pubkey_state state = pubkey_state state"

subsection \<open>Push, pop and peek\<close>

text \<open>
  What the environment does in one call of \<^verbatim>\<open>validation_push_cert\<close>: whether
  \<^verbatim>\<open>resources_create\<close> and the growth of the certificate stack get their memory, and
  \<^verbatim>\<open>certificate_get_resources\<close> (object/certificate.c, not under src/), which gives an
  error code and the resource set it has filled in.
\<close>

record push_env =
  resources_create_ok :: bool
  certificate_get_resources :: "X509 \<Rightarrow> int \<times> resources"
  sk_X509_push_ok :: bool

definition validation_push_cert ::
  "push_env \<Rightarrow> validation \<Rightarrow> X509 \<Rightarrow> bool \<Rightarrow> (int \<times> validation) \<times> event list" where
  "validation_push_cert env state cert is_ta =
     (if \<not> resources_create_ok env then ((- ENOMEM, state), [])
      else
        (case certificate_get_resources env cert of
           (error, resources) \<Rightarrow>
             if error \<noteq> 0 then ((error, state), [])
             else if is_ta \<and> resources_empty resources then
               (case pr_err ''Trust Anchor certificate does not define any number resources.'' [] of
                  (e, ev) \<Rightarrow> ((e, state), ev))
             else
               (case sk_X509_push (sk_X509_push_ok env) (trusted state) cert of
                  (ok, trusted') \<Rightarrow>
                    if ok \<le> 0 then
                      (case crypto_err ''Couldn't add certificate to trusted stack: %d'' [ok] of
                         (e, ev) \<Rightarrow> ((e, state\<lparr>trusted := trusted'\<rparr>), ev))
                    else
                      ((0, state\<lparr>trusted := trusted',
                                  rsrcs := restack_push (rsrcs state) resources\<rparr>), []))))"

definition validation_pop_cert :: "validation \<Rightarrow> (int \<times> validation) \<times> event list" where
  "validation_pop_cert state =
     (case sk_X509_pop (trusted state) of
        (None, trusted') \<Rightarrow>
          (case pr_crit ''Attempted to pop empty certificate stack'' of
             (e, ev) \<Rightarrow> ((e, state\<lparr>trusted := trusted'\<rparr>), ev))
      | (Some cert, trusted') \<Rightarrow>
          (case restack_pop (rsrcs state) of
             (None, rsrcs') \<Rightarrow>
               (case pr_crit ''Attempted to pop empty resource stack'' of
                  (e, ev) \<Rightarrow> ((e, state\<lparr>trusted := trusted', rsrcs := rsrcs'\<rparr>), ev))
           | (Some resources, rsrcs') \<Rightarrow>
               ((0, state\<lparr>trusted := trusted', rsrcs := rsrcs'\<rparr>), [])))"

definition validation_peek_cert :: "validation \<Rightarrow> X509 option" where
  "validation_peek_cert state =
     sk_X509_value (trusted state) (sk_X509_num (trusted state) - 1)"

definition validation_peek_resource :: "validation \<Rightarrow> resources option" where
  "validation_peek_resource state = restack_peek (rsrcs state)"

subsection \<open>Sequences of operations on one state\<close>

text \<open>
  The operations a walker applies to a prepared state. A push carries the environment of
  its call. The readers only read the state, so the state after them is the state before.
\<close>

datatype op =
    Push_cert X509 bool push_env
  | Pop_cert
  | Peek_cert
  | Peek_resource
  | Get_tal
  | Get_store
  | Get_certs
  | Get_resources
  | Get_pubkey_state
  | Pubkey_valid
  | Pubkey_invalid

fun exec :: "op \<Rightarrow> validation \<Rightarrow> validation" where
  "exec (Push_cert cert is_ta env) state = snd (fst (validation_push_cert env state cert is_ta))"
| "exec Pop_cert state = snd (fst (validation_pop_cert state))"
| "exec Pubkey_valid state = validation_pubkey_valid state"
| "exec Pubkey_invalid state = validation_pubkey_invalid state"
| "exec Peek_cert state = state"
| "exec Peek_resource state = state"
| "exec Get_tal state = state"
| "exec Get_store state = state"
| "exec Get_certs state = state"
| "exec Get_resources state = state"
| "exec Get_pubkey_state state = state"

fun run :: "op list \<Rightarrow> validation \<Rightarrow> validation" where
  "run [] state = state"
| "run (p # ps) state = run ps (exec p state)"

text \<open>
  The spec's reading of the two stacks (design notes: "fuse them into a single stack of
  \<open>(cert, resources)\<close> pairs"), as a second definition to compare state.c with. A push
  adds the certificate with the resource set computed for it, unless the push fails
  (no memory, no resource set, or a trust anchor with an empty set); a pop removes the
  top pair; nothing else touches the chain.
\<close>

definition push_fails :: "push_env \<Rightarrow> X509 \<Rightarrow> bool \<Rightarrow> bool" where
  "push_fails env cert is_ta =
     (\<not> resources_create_ok env \<or> fst (certificate_get_resources env cert) \<noteq> 0
      \<or> (is_ta \<and> resources_empty (snd (certificate_get_resources env cert)))
      \<or> \<not> sk_X509_push_ok env)"

fun chain_exec :: "op \<Rightarrow> (X509 \<times> resources) list \<Rightarrow> (X509 \<times> resources) list" where
  "chain_exec (Push_cert cert is_ta env) chain =
     (if push_fails env cert is_ta then chain
      else chain @ [(cert, snd (certificate_get_resources env cert))])"
| "chain_exec Pop_cert chain = butlast chain"
| "chain_exec p chain = chain"

fun chain_run :: "op list \<Rightarrow> (X509 \<times> resources) list \<Rightarrow> (X509 \<times> resources) list" where
  "chain_run [] chain = chain"
| "chain_run (p # ps) chain = chain_run ps (chain_exec p chain)"

section \<open>File hashes (crypto/hash.c)\<close>

record BIT_STRING =
  buf :: "byte list"
  bits_unused :: int

record rpki_uri =
  uri_global :: string
  uri_local :: string

text \<open>
  A message digest of libcrypto (\<^verbatim>\<open>EVP_MD\<close>) is the function from the bytes fed to
  it to the digest; a digest context holds the bytes fed so far.
\<close>

type_synonym EVP_MD = "byte list \<Rightarrow> byte list"

text \<open>
  A file of the local mirror: its bytes, the block size \<^verbatim>\<open>stat\<close> reports, and whether
  the device fails once these bytes have been delivered (instead of reporting the end
  of the file).
\<close>

record disk_file =
  contents :: "byte list"
  st_blksize :: nat
  read_fails :: bool

record FILE_stream =
  unread :: "byte list"
  fails_at_end :: bool
  eof_ind :: bool
  err_ind :: bool

text \<open>
  What surrounds one call of \<^verbatim>\<open>hash_file\<close>: the digests libcrypto knows by name,
  the mirror (for a path, the error code of opening it and the file), and whether the
  buffer, the digest context and each step of the digest succeed.
\<close>

record hash_env =
  EVP_get_digestbyname :: "string \<Rightarrow> EVP_MD option"
  file_system :: "string \<Rightarrow> int \<times> disk_file"
  malloc_buffer_ok :: bool
  EVP_MD_CTX_new_ok :: bool
  EVP_DigestInit_ex_ok :: bool
  EVP_DigestUpdate_ok :: bool
  EVP_DigestFinal_ex_ok :: bool

text \<open>
  Modelled from the spec: \<^verbatim>\<open>file_open\<close> (file.c) is not under src/. It is the object
  store's \<open>open(uri) -> (stream, size, blocksize)\<close>: an error code, and on success a
  fresh stream at the start of the file with the block size of its \<^verbatim>\<open>stat\<close>.
\<close>

definition file_open :: "hash_env \<Rightarrow> string \<Rightarrow> int \<times> FILE_stream \<times> nat" where
  "file_open env path =
     (case file_system env path of
        (error, f) \<Rightarrow>
          (error,
           \<lparr>unread = contents f, fails_at_end = read_fails f, eof_ind = False, err_ind = False\<rparr>,
           st_blksize f))"

text \<open>
  The C library's stream functions. \<^verbatim>\<open>fread(buffer, 1, n, file)\<close> with \<open>n = 0\<close> returns
  0 and leaves the stream alone; a read that gets fewer than \<open>n\<close> bytes sets the
  end-of-file or the error indicator.
\<close>

definition fread :: "nat \<Rightarrow> FILE_stream \<Rightarrow> byte list \<times> FILE_stream" where
  "fread n file =
     (if n = 0 then ([], file)
      else if n \<le> length (unread file) then
        (take n (unread file), file\<lparr>unread := drop n (unread file)\<rparr>)
      else if fails_at_end file then (unread file, file\<lparr>unread := [], err_ind := True\<rparr>)
      else (unread file, file\<lparr>unread := [], eof_ind := True\<rparr>))"

definition ferror :: "FILE_stream \<Rightarrow> int" where
  "ferror file = (if err_ind file then 1 else 0)"

definition feof :: "FILE_stream \<Rightarrow> bool" where
  "feof file = eof_ind file"

fun memcmp :: "byte list \<Rightarrow> byte list \<Rightarrow> nat \<Rightarrow> int" where
  "memcmp (a # as) (b # bs) (Suc n) =
     (if a = b then memcmp as bs n else int (unat a) - int (unat b))"
| "memcmp as bs n = 0"

definition get_md :: "hash_env \<Rightarrow> string \<Rightarrow> (int + EVP_MD) \<times> event list" where
  "get_md env algorithm =
     (case EVP_get_digestbyname env algorithm of
        None \<Rightarrow> (Inl (- EINVAL), [Printf (''Unknown message digest %s'' @ [CHR 0x0A]) algorithm])
      | Some md \<Rightarrow> (Inr md, []))"

definition hash_matches :: "byte list \<Rightarrow> nat \<Rightarrow> byte list \<Rightarrow> nat \<Rightarrow> bool" where
  "hash_matches expected expected_len actual actual_len =
     (expected_len = actual_len \<and> memcmp expected actual expected_len = 0)"

text \<open>
  The \<^verbatim>\<open>do ... while (!feof(file))\<close> loop of \<^verbatim>\<open>hash_file\<close>, from the stream and the
  bytes the digest context holds to the error code, the context and what was logged.
  With a block size of 0 no read ever reaches the end of the file and the loop does not
  return: the value is \<open>None\<close>.
\<close>

partial_function (option) hash_file_loop ::
  "hash_env \<Rightarrow> nat \<Rightarrow> FILE_stream \<Rightarrow> byte list \<Rightarrow> (int \<times> byte list \<times> event list) option" where
  "hash_file_loop env buffer_len file ctx =
     (case fread buffer_len file of
        (buffer, file') \<Rightarrow>
          if ferror file' \<noteq> 0 then
            Some (ferror file', ctx,
                  pr_errno (ferror file') ''File reading error. Error message (apparently)'')
          else if \<not> EVP_DigestUpdate_ok env then
            (case crypto_err ''EVP_DigestUpdate() failed'' [] of
               (e, ev) \<Rightarrow> Some (e, ctx, ev))
          else if \<not> feof file' then hash_file_loop env buffer_len file' (ctx @ buffer)
          else Some (0, ctx @ buffer, []))"

text \<open>
  \<^verbatim>\<open>hash_file\<close>: the error code and the digest written to \<^verbatim>\<open>result\<close> (nothing is
  written on an error path; the model gives \<open>[]\<close> there).
\<close>

definition hash_file ::
  "hash_env \<Rightarrow> string \<Rightarrow> rpki_uri \<Rightarrow> ((int \<times> byte list) \<times> event list) option" where
  "hash_file env algorithm uri =
     (case get_md env algorithm of
        (Inl error, ev) \<Rightarrow> Some ((error, []), ev)
      | (Inr md, ev) \<Rightarrow>
          (case file_open env (uri_local uri) of
             (error, file, buffer_len) \<Rightarrow>
               if error \<noteq> 0 then Some ((error, []), ev @ [File_open (uri_local uri)])
               else if \<not> malloc_buffer_ok env then
                 Some ((fst pr_enomem, []),
                       ev @ [File_open (uri_local uri)] @ snd pr_enomem
                          @ [File_close (uri_local uri)])
               else if \<not> EVP_MD_CTX_new_ok env then
                 Some ((fst pr_enomem, []),
                       ev @ [File_open (uri_local uri)] @ snd pr_enomem
                          @ [File_close (uri_local uri)])
               else if \<not> EVP_DigestInit_ex_ok env then
                 (case crypto_err ''EVP_DigestInit_ex() failed'' [] of
                    (e, ev') \<Rightarrow>
                      Some ((e, []),
                            ev @ [File_open (uri_local uri)] @ ev' @ [File_close (uri_local uri)]))
               else
                 (case hash_file_loop env buffer_len file [] of
                    None \<Rightarrow> None
                  | Some (error', ctx, ev') \<Rightarrow>
                      if error' \<noteq> 0 then
                        Some ((error', []),
                              ev @ [File_open (uri_local uri)] @ ev'
                                 @ [File_close (uri_local uri)])
                      else if \<not> EVP_DigestFinal_ex_ok env then
                        (case crypto_err ''EVP_DigestFinal_ex() failed'' [] of
                           (e, ev'') \<Rightarrow>
                             Some ((e, []),
                                   ev @ [File_open (uri_local uri)] @ ev' @ ev''
                                      @ [File_close (uri_local uri)]))
                      else
                        Some ((0, md ctx),
                              ev @ [File_open (uri_local uri)] @ ev'
                                 @ [File_close (uri_local uri)]))))"

definition hash_validate_file ::
  "hash_env \<Rightarrow> string \<Rightarrow> rpki_uri \<Rightarrow> BIT_STRING \<Rightarrow> (int \<times> event list) option" where
  "hash_validate_file env algorithm uri expected =
     (if bits_unused expected \<noteq> 0 then Some (pr_err ''Hash string has unused bits.'' [])
      else
        (case hash_file env algorithm uri of
           None \<Rightarrow> None
         | Some ((error, actual), ev) \<Rightarrow>
             if error \<noteq> 0 then Some (error, ev)
             else if \<not> hash_matches (buf expected) (length (buf expected)) actual (length actual)
             then
               (case pr_err ''File does not match its hash.'' [] of
                  (e, ev') \<Rightarrow> Some (e, ev @ ev'))
             else Some (0, ev)))"

section \<open>Serial Notify broadcast (notify.c)\<close>

record client =
  fd :: int
  rtr_version :: "8 word"

text \<open>
  What surrounds one call of \<^verbatim>\<open>notify_clients\<close>: the database's answer to
  \<^verbatim>\<open>get_last_serial_number\<close> (rtr/db/vrps.c: an error code and the serial) and, for a
  socket, a protocol version and a serial, the error code of
  \<^verbatim>\<open>send_serial_notify_pdu\<close> (rtr/pdu_sender.c).
\<close>

record notify_env =
  get_last_serial_number :: "int \<times> 32 word"
  send_serial_notify_pdu :: "int \<Rightarrow> 8 word \<Rightarrow> 32 word \<Rightarrow> int"

text \<open>
  Modelled from the spec: \<^verbatim>\<open>clients_foreach\<close> (clients.c) is not under src/. It is the
  \<open>for_each\<close> of the client registry: it hands each registered client, in order, to the
  callback, which gets a pointer to the client and may change it; a nonzero status of
  the callback interrupts the iteration and is returned ("do not interrupt notify to
  other clients" is why \<^verbatim>\<open>send_notify\<close> returns 0). The registry after the iteration
  is part of the result.
\<close>

fun clients_foreach ::
  "(client \<Rightarrow> 'a \<Rightarrow> (int \<times> client) \<times> event list) \<Rightarrow> 'a \<Rightarrow> client list
     \<Rightarrow> (int \<times> client list) \<times> event list" where
  "clients_foreach f arg [] = ((0, []), [])"
| "clients_foreach f arg (c # cs) =
     (case f c arg of
        ((error, c'), ev) \<Rightarrow>
          if error \<noteq> 0 then ((error, c' # cs), ev)
          else
            (case clients_foreach f arg cs of
               ((error', cs'), ev') \<Rightarrow> ((error', c' # cs'), ev @ ev')))"

definition send_notify :: "notify_env \<Rightarrow> client \<Rightarrow> 32 word \<Rightarrow> (int \<times> client) \<times> event list" where
  "send_notify env client serial =
     (let error = send_serial_notify_pdu env (fd client) (rtr_version client) serial
      in ((0, client),
          Serial_notify_pdu (fd client) (rtr_version client) serial
            # (if error \<noteq> 0 then pr_warn ''Error code %d sending notify PDU to client.'' [error]
               else [])))"

definition notify_clients :: "notify_env \<Rightarrow> client list \<Rightarrow> (int \<times> client list) \<times> event list" where
  "notify_clients env clients =
     (case get_last_serial_number env of
        (error, serial) \<Rightarrow>
          if error \<noteq> 0 then ((error, clients), [])
          else clients_foreach (send_notify env) serial clients)"

section \<open>Canonical resource sets\<close>

text \<open>
  Modelled from the spec: the code that canonicalizes resource sets is not under src/.
  "Ranges are sorted by start, any adjacent or overlapping ranges are fused; equal
  ranges collapse." \<open>num\<close> reads a bound as a number. After the sort, a range that
  starts no later than one past the end of the range before it overlaps or touches it,
  and the two become one range that ends at the later of the two ends. IP ranges of
  different families are never fused: each family is canonicalized on its own, IPv4
  first.
\<close>

fun fuse :: "('a \<Rightarrow> nat) \<Rightarrow> ('a \<times> 'a) list \<Rightarrow> ('a \<times> 'a) list" where
  "fuse num ((a, b) # (c, d) # rs) =
     (if num c \<le> Suc (num b) then fuse num ((a, if num b \<le> num d then d else b) # rs)
      else (a, b) # fuse num ((c, d) # rs))"
| "fuse num rs = rs"

definition canonicalize_ranges :: "('a \<Rightarrow> nat) \<Rightarrow> ('a \<times> 'a) list \<Rightarrow> ('a \<times> 'a) list" where
  "canonicalize_ranges num rs = fuse num (sort_key (\<lambda>r. num (fst r)) rs)"

definition ip_bounds :: "ip_range \<Rightarrow> nat \<times> nat" where
  "ip_bounds r = (ip_start r, ip_end r)"

definition ip_of_bounds :: "family \<Rightarrow> nat \<times> nat \<Rightarrow> ip_range" where
  "ip_of_bounds f r = \<lparr>ip_family = f, ip_start = fst r, ip_end = snd r\<rparr>"

definition canonicalize_family :: "family \<Rightarrow> ip_range list \<Rightarrow> ip_range list" where
  "canonicalize_family f rs =
     map (ip_of_bounds f)
       (canonicalize_ranges (\<lambda>a. a) (map ip_bounds (filter (\<lambda>r. ip_family r = f) rs)))"

definition canonicalize_ips :: "ip_range list \<Rightarrow> ip_range list" where
  "canonicalize_ips rs = canonicalize_family V4 rs @ canonicalize_family V6 rs"

definition canonicalize :: "resources \<Rightarrow> resources" where
  "canonicalize X = \<lparr>ips = canonicalize_ips (ips X), asns = canonicalize_ranges unat (asns X)\<rparr>"

section \<open>Predicates of the properties, and example inputs\<close>

text \<open>
  The two stacks of a state seen as one chain: they have the same length, and pairing
  the certificate stack with the resource stack (read from its bottom) gives \<open>chain\<close>.
\<close>

definition paired :: "validation \<Rightarrow> (X509 \<times> resources) list \<Rightarrow> bool" where
  "paired state chain =
     (length (trusted state) = length (rsrcs state)
      \<and> zip (trusted state) (rev (rsrcs state)) = chain)"

text \<open>The top of a chain is its last element, if it has one.\<close>

definition chain_top :: "'a list \<Rightarrow> 'a option" where
  "chain_top chain = (if chain = [] then None else Some (last chain))"

text \<open>The stream \<^verbatim>\<open>file_open\<close> hands out for a file of the mirror.\<close>

definition fresh_stream :: "disk_file \<Rightarrow> FILE_stream" where
  "fresh_stream f =
     \<lparr>unread = contents f, fails_at_end = read_fails f, eof_ind = False, err_ind = False\<rparr>"

text \<open>
  The condition the spec gives for a file to pass: the file mapped from the URI can be
  opened and read, the digest algorithm is known, and the digest of the file's whole
  contents equals the expected hash byte for byte.
\<close>

definition file_matches_hash :: "hash_env \<Rightarrow> string \<Rightarrow> rpki_uri \<Rightarrow> BIT_STRING \<Rightarrow> bool" where
  "file_matches_hash env algorithm uri expected =
     (fst (file_system env (uri_local uri)) = 0
      \<and> \<not> read_fails (snd (file_system env (uri_local uri)))
      \<and> 0 < st_blksize (snd (file_system env (uri_local uri)))
      \<and> (\<exists>md. EVP_get_digestbyname env algorithm = Some md
             \<and> md (contents (snd (file_system env (uri_local uri)))) = buf expected))"

text \<open>The buffer, the digest context and every step of the digest succeed.\<close>

definition digest_steps_ok :: "hash_env \<Rightarrow> bool" where
  "digest_steps_ok env =
     (malloc_buffer_ok env \<and> EVP_MD_CTX_new_ok env \<and> EVP_DigestInit_ex_ok env
      \<and> EVP_DigestUpdate_ok env \<and> EVP_DigestFinal_ex_ok env)"

text \<open>
  What one client sees of a broadcast of \<open>serial\<close>: the Serial Notify PDU on its socket
  and, when sending failed, the warning with the error code.
\<close>

definition notify_events :: "notify_env \<Rightarrow> 32 word \<Rightarrow> client \<Rightarrow> event list" where
  "notify_events env serial c =
     Serial_notify_pdu (fd c) (rtr_version c) serial
       # (if send_serial_notify_pdu env (fd c) (rtr_version c) serial = 0 then []
          else [Pr_warn ''Error code %d sending notify PDU to client.''
                  [send_serial_notify_pdu env (fd c) (rtr_version c) serial]])"

subsection \<open>Example inputs\<close>

definition env_ok :: prepare_env where
  "env_ok = \<lparr>malloc_ok = True, state_store_error = 0, X509_STORE_new_ok = True,
             sk_X509_new_null_ok = True, restack_create_ok = True\<rparr>"

definition state_0 :: validation where
  "state_0 = \<lparr>tal = TAL ''ta'', store = \<lparr>verify_cb = Some cb\<rparr>, trusted = [], rsrcs = [],
              pubkey_state = PKS_UNTESTED\<rparr>"

definition cert_A :: X509 where
  "cert_A = X509 ''CA one''"

definition cert_B :: X509 where
  "cert_B = X509 ''CA two''"

definition rsrc_A :: resources where
  "rsrc_A = \<lparr>ips = [\<lparr>ip_family = V4, ip_start = 167772160, ip_end = 184549375\<rparr>],
             asns = [(64500, 64510)]\<rparr>"

definition rsrc_none :: resources where
  "rsrc_none = \<lparr>ips = [], asns = []\<rparr>"

text \<open>\<open>cert_A\<close> holds \<open>rsrc_A\<close>; every other certificate holds no resources.\<close>

definition penv_A :: push_env where
  "penv_A = \<lparr>resources_create_ok = True,
             certificate_get_resources = (\<lambda>c. if c = cert_A then (0, rsrc_A) else (0, rsrc_none)),
             sk_X509_push_ok = True\<rparr>"

definition example_ops :: "op list" where
  "example_ops = [Push_cert cert_A True penv_A, Peek_cert, Push_cert cert_B False penv_A,
                  Push_cert cert_B True penv_A, Pop_cert]"

definition state_A :: validation where
  "state_A = state_0\<lparr>trusted := [cert_A], rsrcs := [rsrc_A]\<rparr>"

text \<open>A toy digest: the number of bytes and their sum.\<close>

definition example_md :: EVP_MD where
  "example_md bytes = [of_nat (length bytes), sum_list bytes]"

definition example_file :: disk_file where
  "example_file = \<lparr>contents = [1, 2, 3], st_blksize = 2, read_fails = False\<rparr>"

definition example_hash_env :: hash_env where
  "example_hash_env =
     \<lparr>EVP_get_digestbyname = (\<lambda>name. if name = ''sha256'' then Some example_md else None),
      file_system = (\<lambda>path. if path = ''repository/a.roa'' then (0, example_file)
                             else (2, \<lparr>contents = [], st_blksize = 0, read_fails = False\<rparr>)),
      malloc_buffer_ok = True, EVP_MD_CTX_new_ok = True, EVP_DigestInit_ex_ok = True,
      EVP_DigestUpdate_ok = True, EVP_DigestFinal_ex_ok = True\<rparr>"

definition example_uri :: rpki_uri where
  "example_uri =
     \<lparr>uri_global = ''rsync://rpki.example/a.roa'', uri_local = ''repository/a.roa''\<rparr>"

definition missing_uri :: rpki_uri where
  "missing_uri =
     \<lparr>uri_global = ''rsync://rpki.example/b.roa'', uri_local = ''repository/b.roa''\<rparr>"

definition example_expected :: BIT_STRING where
  "example_expected = \<lparr>buf = [3, 6], bits_unused = 0\<rparr>"

definition example_expected_unused :: BIT_STRING where
  "example_expected_unused = \<lparr>buf = [3, 6], bits_unused = 4\<rparr>"

definition example_expected_other :: BIT_STRING where
  "example_expected_other = \<lparr>buf = [3, 7], bits_unused = 0\<rparr>"

definition example_clients :: "client list" where
  "example_clients =
     [\<lparr>fd = 5, rtr_version = 0\<rparr>, \<lparr>fd = 6, rtr_version = 1\<rparr>, \<lparr>fd = 9, rtr_version = 1\<rparr>]"

text \<open>The database is at serial 7; writing to socket 6 fails with error 32.\<close>

definition example_notify_env :: notify_env where
  "example_notify_env =
     \<lparr>get_last_serial_number = (0, 7),
      send_serial_notify_pdu = (\<lambda>fd version serial. if fd = 6 then 32 else 0)\<rparr>"

section \<open>Properties of the validation state\<close>

lemma validation_prepare_Inr:
  "fst (validation_prepare env t) = Inr state \<Longrightarrow>
   state = \<lparr>tal = t, store = \<lparr>verify_cb = Some cb\<rparr>, trusted = [], rsrcs = [],
            pubkey_state = PKS_UNTESTED\<rparr>"
  by (auto simp: validation_prepare_def crypto_err_def X509_STORE_set_verify_cb_def
      X509_STORE_new_def split: if_splits)

lemma prepare_env_ok: "fst (validation_prepare env_ok (TAL ''ta'')) = Inr state_0"
  by (simp add: validation_prepare_def env_ok_def state_0_def X509_STORE_set_verify_cb_def
      X509_STORE_new_def)

text \<open>
  C1. The callback that \<^verbatim>\<open>validation_prepare\<close> registers on the X.509 store is
  \<open>cb\<close>, and it ignores exactly the error \<^verbatim>\<open>X509_V_ERR_UNHANDLED_CRITICAL_EXTENSION\<close>:
  for every error that libcrypto reports to it (a call with \<open>ok = 0\<close>), it returns
  nonzero (ignore) if the code is the unhandled critical extension, and 0, the aborting
  status, for every other code. In full, \<open>cb\<close> returns 1 for the unhandled critical
  extension and its \<open>ok\<close> argument unchanged for every other code.
\<close>

theorem cb_ignores_only_unhandled_critical_extension:
  "(fst (validation_prepare env t) = Inr state \<longrightarrow>
      verify_cb (validation_store state) = Some cb)
   \<and> cb ok ctx =
      (if X509_STORE_CTX_get_error ctx = X509_V_ERR_UNHANDLED_CRITICAL_EXTENSION then 1 else ok)
   \<and> (cb 0 ctx \<noteq> 0) = (X509_STORE_CTX_get_error ctx = X509_V_ERR_UNHANDLED_CRITICAL_EXTENSION)"
  by (auto simp: cb_def validation_store_def dest: validation_prepare_Inr)

theorem cb_ignores_only_unhandled_critical_extension_witness:
  "fst (validation_prepare env_ok (TAL ''ta'')) = Inr state_0
   \<and> verify_cb (validation_store state_0) = Some cb
   \<and> cb 0 \<lparr>ctx_error = X509_V_ERR_UNHANDLED_CRITICAL_EXTENSION\<rparr> = 1
   \<and> cb 0 \<lparr>ctx_error = X509_V_ERR_CERT_HAS_EXPIRED\<rparr> = 0"
  using cb_ignores_only_unhandled_critical_extension
          [of env_ok "TAL ''ta''" state_0 0 "\<lparr>ctx_error = X509_V_ERR_UNHANDLED_CRITICAL_EXTENSION\<rparr>"]
        cb_ignores_only_unhandled_critical_extension
          [of env_ok "TAL ''ta''" state_0 0 "\<lparr>ctx_error = X509_V_ERR_CERT_HAS_EXPIRED\<rparr>"]
        prepare_env_ok
  by (simp add: X509_STORE_CTX_get_error_def X509_V_ERR_CERT_HAS_EXPIRED_def
      X509_V_ERR_UNHANDLED_CRITICAL_EXTENSION_def)

text \<open>
  C2. \<^verbatim>\<open>validation_destroy\<close> reports an error, with the number of certificates left,
  for every state whose certificate stack is not empty, and reports nothing for a
  state whose stack is empty.
\<close>

theorem validation_destroy_reports_leftover_certificates:
  "validation_destroy state =
     (if trusted state = [] then []
      else [Pr_err ''Error: validation state has %d certificates. (0 expected)''
              [int (length (trusted state))]])
   \<and> (validation_destroy state = []) = (sk_X509_num (trusted state) = 0)"
  by (simp add: validation_destroy_def sk_X509_num_def pr_err_def)

text \<open>
  C3. Whenever \<open>is_ta\<close> holds and the resource set computed for the certificate is
  empty, \<^verbatim>\<open>validation_push_cert\<close> returns a nonzero error and leaves the state, hence
  both stacks, as it was. When it returns 0, the resource set was computed without
  error, the certificate is on top of the certificate stack and its resource set on
  top of the resource stack, and nothing else has changed.
\<close>

theorem validation_push_cert_fails_or_pushes:
  "(is_ta \<and> resources_empty (snd (certificate_get_resources env cert)) \<longrightarrow>
      fst (fst (validation_push_cert env state cert is_ta)) \<noteq> 0
      \<and> snd (fst (validation_push_cert env state cert is_ta)) = state)
   \<and> (fst (fst (validation_push_cert env state cert is_ta)) = 0 \<longrightarrow>
        fst (certificate_get_resources env cert) = 0
        \<and> snd (fst (validation_push_cert env state cert is_ta)) =
            state\<lparr>trusted := trusted state @ [cert],
                  rsrcs := snd (certificate_get_resources env cert) # rsrcs state\<rparr>)"
  by (auto simp: validation_push_cert_def pr_err_def crypto_err_def sk_X509_push_def
      restack_push_def ENOMEM_def EINVAL_def split: prod.splits if_splits)

lemma push_examples:
  "validation_push_cert penv_A state_0 cert_B True =
     ((- 22, state_0),
      [Pr_err ''Trust Anchor certificate does not define any number resources.'' []])"
  "validation_push_cert penv_A state_0 cert_A True = ((0, state_A), [])"
  by (simp_all add: validation_push_cert_def penv_A_def cert_A_def cert_B_def rsrc_A_def
      rsrc_none_def resources_empty_def pr_err_def EINVAL_def sk_X509_push_def
      restack_push_def state_A_def state_0_def)

theorem validation_push_cert_fails_or_pushes_witness:
  "resources_empty (snd (certificate_get_resources penv_A cert_B))
   \<and> fst (fst (validation_push_cert penv_A state_0 cert_B True)) = - 22
   \<and> snd (fst (validation_push_cert penv_A state_0 cert_B True)) = state_0
   \<and> fst (fst (validation_push_cert penv_A state_0 cert_A True)) = 0
   \<and> snd (fst (validation_push_cert penv_A state_0 cert_A True)) =
       state_0\<lparr>trusted := [cert_A], rsrcs := [rsrc_A]\<rparr>"
  using validation_push_cert_fails_or_pushes [of True penv_A cert_B state_0]
        validation_push_cert_fails_or_pushes [of True penv_A cert_A state_0]
  by (simp add: push_examples state_A_def)
     (simp add: penv_A_def cert_A_def cert_B_def rsrc_none_def resources_empty_def)

subsection \<open>The two stacks stay parallel; pop\<close>

lemma zip_butlast:
  "length xs = length ys \<Longrightarrow> zip (butlast xs) (butlast ys) = butlast (zip xs ys)"
  by (induction xs ys rule: list_induct2) auto

lemma pop_pairs:
  "length t = length rs \<Longrightarrow> zip (butlast t) (rev (tl rs)) = butlast (zip t (rev rs))"
  using zip_butlast [of t "rev rs"] by (simp add: butlast_rev)

lemma exec_paired: "paired state chain \<Longrightarrow> paired (exec p state) (chain_exec p chain)"
proof (cases p)
  case (Push_cert cert is_ta env)
  assume "paired state chain"
  then show ?thesis
    unfolding Push_cert paired_def
    by (auto simp: validation_push_cert_def push_fails_def pr_err_def crypto_err_def
        sk_X509_push_def restack_push_def split: prod.splits)
next
  case Pop_cert
  assume *: "paired state chain"
  show ?thesis
  proof (cases "trusted state")
    case Nil
    with * show ?thesis
      unfolding Pop_cert paired_def
      by (simp add: validation_pop_cert_def sk_X509_pop_def pr_crit_def)
  next
    case (Cons c cs)
    with * obtain r rest where rs: "rsrcs state = r # rest"
      by (cases "rsrcs state") (auto simp: paired_def)
    have popped: "exec Pop_cert state =
        state\<lparr>trusted := butlast (trusted state), rsrcs := tl (rsrcs state)\<rparr>"
      using Cons rs by (simp add: validation_pop_cert_def sk_X509_pop_def restack_pop_def)
    have "zip (butlast (trusted state)) (rev (tl (rsrcs state))) = butlast chain"
      using * pop_pairs [of "trusted state" "rsrcs state"] by (simp add: paired_def)
    moreover have "length (butlast (trusted state)) = length (tl (rsrcs state))"
      using * by (simp add: paired_def)
    ultimately show ?thesis
      unfolding Pop_cert popped paired_def by simp
  qed
qed (simp_all add: validation_pubkey_valid_def validation_pubkey_invalid_def paired_def)

lemma run_paired: "paired state chain \<Longrightarrow> paired (run ps state) (chain_run ps chain)"
  by (induction ps arbitrary: state chain) (simp_all add: exec_paired)

lemma paired_peek:
  assumes "paired state chain"
  shows "validation_peek_cert state = map_option fst (chain_top chain)"
    and "validation_peek_resource state = map_option snd (chain_top chain)"
proof -
  from assms have len: "length (trusted state) = length (rev (rsrcs state))"
    and ch: "chain = zip (trusted state) (rev (rsrcs state))"
    by (simp_all add: paired_def)
  from len have t: "trusted state = map fst chain" and r: "rev (rsrcs state) = map snd chain"
    unfolding ch by simp_all
  show "validation_peek_cert state = map_option fst (chain_top chain)"
    by (simp add: validation_peek_cert_def sk_X509_value_def sk_X509_num_def chain_top_def t
        last_map last_conv_nth nat_diff_distrib')
  have "restack_peek (rsrcs state) =
      (if rsrcs state = [] then None else Some (last (rev (rsrcs state))))"
    by (cases "rsrcs state") (simp_all add: restack_peek_def)
  also have "\<dots> = map_option snd (chain_top chain)"
    unfolding r using r by (auto simp add: chain_top_def last_map)
  finally show "validation_peek_resource state = map_option snd (chain_top chain)"
    by (simp add: validation_peek_resource_def)
qed

text \<open>
  C5. Take a freshly prepared state and apply any sequence of operations of state.c to
  it. Then the certificate stack and the resource stack have the same length, and
  position by position (the resource stack read from its bottom) they hold the
  certificates together with the resource sets that were pushed with them: the pairs
  are the single chain of \<open>(cert, resources)\<close> that the spec describes. The two peeks
  read the two halves of the top pair. As every prefix of a sequence is a sequence,
  this holds after each operation.
\<close>

theorem stacks_stay_parallel:
  assumes "fst (validation_prepare env t) = Inr state"
  shows "length (trusted (run ps state)) = length (rsrcs (run ps state))
         \<and> zip (trusted (run ps state)) (rev (rsrcs (run ps state))) = chain_run ps []
         \<and> validation_peek_cert (run ps state) = map_option fst (chain_top (chain_run ps []))
         \<and> validation_peek_resource (run ps state) = map_option snd (chain_top (chain_run ps []))"
proof -
  have "paired state []"
    using validation_prepare_Inr [OF assms] by (simp add: paired_def)
  then have *: "paired (run ps state) (chain_run ps [])"
    by (rule run_paired)
  then show ?thesis
    using paired_peek [OF *] by (simp add: paired_def)
qed

lemma run_example: "run example_ops state_0 = state_0\<lparr>trusted := [cert_A], rsrcs := [rsrc_A]\<rparr>"
  by (simp add: example_ops_def state_0_def validation_push_cert_def validation_pop_cert_def
      penv_A_def cert_A_def cert_B_def rsrc_A_def rsrc_none_def resources_empty_def
      sk_X509_push_def sk_X509_pop_def restack_push_def restack_pop_def pr_err_def)

lemma chain_example: "chain_run example_ops [] = [(cert_A, rsrc_A)]"
  by (simp add: example_ops_def push_fails_def penv_A_def cert_A_def cert_B_def rsrc_A_def
      rsrc_none_def resources_empty_def)

theorem stacks_stay_parallel_witness:
  "fst (validation_prepare env_ok (TAL ''ta'')) = Inr state_0
   \<and> chain_run example_ops [] = [(cert_A, rsrc_A)]
   \<and> trusted (run example_ops state_0) = [cert_A]
   \<and> rsrcs (run example_ops state_0) = [rsrc_A]
   \<and> validation_peek_cert (run example_ops state_0) = Some cert_A
   \<and> validation_peek_resource (run example_ops state_0) = Some rsrc_A"
  using stacks_stay_parallel [OF prepare_env_ok, of example_ops] prepare_env_ok
  by (simp add: run_example chain_example chain_top_def)

lemma validation_pop_cert_cases:
  "(trusted state = [] \<longrightarrow>
      validation_pop_cert state =
        ((- EINVAL, state), [Pr_crit ''Attempted to pop empty certificate stack'']))
   \<and> (trusted state \<noteq> [] \<and> rsrcs state \<noteq> [] \<longrightarrow>
        validation_pop_cert state =
          ((0, state\<lparr>trusted := butlast (trusted state), rsrcs := tl (rsrcs state)\<rparr>), []))
   \<and> (trusted state \<noteq> [] \<and> rsrcs state = [] \<longrightarrow>
        validation_pop_cert state =
          ((- EINVAL, state\<lparr>trusted := butlast (trusted state)\<rparr>),
           [Pr_crit ''Attempted to pop empty resource stack'']))"
  by (auto simp: validation_pop_cert_def sk_X509_pop_def restack_pop_def pr_crit_def
      split: list.splits)

text \<open>
  C4. Take any state that \<^verbatim>\<open>validation_prepare\<close> and the operations of state.c
  produce. If its certificate stack is empty, \<^verbatim>\<open>validation_pop_cert\<close> reports the
  critical error "Attempted to pop empty certificate stack", returns the nonzero status
  \<open>-EINVAL\<close> and leaves the state alone. If its certificate stack is not empty,
  \<^verbatim>\<open>validation_pop_cert\<close> removes the top element of the certificate stack and the
  top element of the resource stack, changes nothing else, reports nothing and
  returns 0.
\<close>

theorem validation_pop_cert_pops_both:
  assumes "fst (validation_prepare env t) = Inr state"
  shows "(trusted (run ps state) = [] \<longrightarrow>
            validation_pop_cert (run ps state) =
              ((- EINVAL, run ps state), [Pr_crit ''Attempted to pop empty certificate stack''])
            \<and> - EINVAL \<noteq> 0)
         \<and> (trusted (run ps state) \<noteq> [] \<longrightarrow>
              validation_pop_cert (run ps state) =
                ((0, (run ps state)\<lparr>trusted := butlast (trusted (run ps state)),
                                     rsrcs := tl (rsrcs (run ps state))\<rparr>), []))"
proof -
  have "paired state []"
    using validation_prepare_Inr [OF assms] by (simp add: paired_def)
  then have "paired (run ps state) (chain_run ps [])"
    by (rule run_paired)
  then have "length (trusted (run ps state)) = length (rsrcs (run ps state))"
    by (simp add: paired_def)
  then have "trusted (run ps state) \<noteq> [] \<longrightarrow> rsrcs (run ps state) \<noteq> []"
    by auto
  with validation_pop_cert_cases [of "run ps state"] show ?thesis
    by (simp add: EINVAL_def)
qed

lemma run_push_A: "run [Push_cert cert_A True penv_A] state_0 = state_A"
  by (simp add: push_examples)

theorem validation_pop_cert_pops_both_witness:
  "fst (validation_prepare env_ok (TAL ''ta'')) = Inr state_0
   \<and> trusted (run [] state_0) = []
   \<and> validation_pop_cert (run [] state_0) =
       ((- 22, state_0), [Pr_crit ''Attempted to pop empty certificate stack''])
   \<and> run [Push_cert cert_A True penv_A] state_0 = state_A
   \<and> trusted state_A \<noteq> []
   \<and> validation_pop_cert state_A = ((0, state_0), [])"
  using validation_pop_cert_pops_both [OF prepare_env_ok, of "[]"]
        validation_pop_cert_pops_both [OF prepare_env_ok, of "[Push_cert cert_A True penv_A]"]
        prepare_env_ok
  unfolding run_push_A
  by (simp add: state_A_def state_0_def EINVAL_def)

subsection \<open>The public key status\<close>

lemma exec_pubkey_state:
  "p \<noteq> Pubkey_valid \<Longrightarrow> p \<noteq> Pubkey_invalid \<Longrightarrow> pubkey_state (exec p s) = pubkey_state s"
  by (cases p)
     (auto simp: validation_push_cert_def validation_pop_cert_def pr_err_def crypto_err_def
        pr_crit_def sk_X509_push_def sk_X509_pop_def restack_pop_def
        split: prod.splits list.splits)

lemma run_pubkey_state:
  "Pubkey_valid \<notin> set ps \<Longrightarrow> Pubkey_invalid \<notin> set ps \<Longrightarrow>
   pubkey_state (run ps s) = pubkey_state s"
  by (induction ps arbitrary: s) (auto simp: exec_pubkey_state)

text \<open>
  C9. Right after a successful \<^verbatim>\<open>validation_prepare\<close> the public key status is
  \<^verbatim>\<open>PKS_UNTESTED\<close>. \<^verbatim>\<open>validation_pubkey_valid\<close> sets it to \<^verbatim>\<open>PKS_VALID\<close> and
  \<^verbatim>\<open>validation_pubkey_invalid\<close> to \<^verbatim>\<open>PKS_INVALID\<close>. No other operation of state.c
  (push, pop, the peeks, the accessors) changes it, and neither does any sequence of
  operations without the two setters.
\<close>

theorem pubkey_state_changes_only_by_setters:
  "(fst (validation_prepare env t) = Inr state \<longrightarrow> validation_pubkey_state state = PKS_UNTESTED)
   \<and> validation_pubkey_state (exec Pubkey_valid s) = PKS_VALID
   \<and> validation_pubkey_state (exec Pubkey_invalid s) = PKS_INVALID
   \<and> (p \<noteq> Pubkey_valid \<and> p \<noteq> Pubkey_invalid \<longrightarrow>
        validation_pubkey_state (exec p s) = validation_pubkey_state s)
   \<and> (Pubkey_valid \<notin> set ps \<and> Pubkey_invalid \<notin> set ps \<longrightarrow>
        validation_pubkey_state (run ps s) = validation_pubkey_state s)"
  using validation_prepare_Inr [of env t state]
  by (auto simp: validation_pubkey_state_def validation_pubkey_valid_def
      validation_pubkey_invalid_def exec_pubkey_state run_pubkey_state)

theorem pubkey_state_changes_only_by_setters_witness:
  "fst (validation_prepare env_ok (TAL ''ta'')) = Inr state_0
   \<and> validation_pubkey_state state_0 = PKS_UNTESTED
   \<and> Pop_cert \<noteq> Pubkey_valid \<and> Pop_cert \<noteq> Pubkey_invalid
   \<and> validation_pubkey_state (exec Pop_cert state_0) = PKS_UNTESTED
   \<and> Pubkey_valid \<notin> set example_ops \<and> Pubkey_invalid \<notin> set example_ops
   \<and> validation_pubkey_state (run example_ops state_0) = PKS_UNTESTED
   \<and> validation_pubkey_state (exec Pubkey_invalid (run example_ops state_0)) = PKS_INVALID"
  using pubkey_state_changes_only_by_setters
          [of env_ok "TAL ''ta''" state_0 state_0 Pop_cert example_ops]
        pubkey_state_changes_only_by_setters
          [of env_ok "TAL ''ta''" state_0 "run example_ops state_0" Pop_cert "[]"]
        prepare_env_ok
  by (simp add: example_ops_def)

section \<open>Properties of the file hash check\<close>

lemma memcmp_eq: "length xs = length ys \<Longrightarrow> (memcmp xs ys (length xs) = 0) = (xs = ys)"
proof (induction xs ys rule: list_induct2)
  case Nil
  show ?case by simp
next
  case (Cons x xs y ys)
  have "(int (unat x) - int (unat y) = 0) = (x = y)"
    by (simp add: word_uint_eq_iff)
  then show ?case
    using Cons by simp
qed

lemma hash_matches_eq: "hash_matches e (length e) a (length a) = (e = a)"
proof (cases "length e = length a")
  case True
  from memcmp_eq [OF this] show ?thesis
    by (simp add: hash_matches_def True)
next
  case False
  then show ?thesis
    by (auto simp: hash_matches_def)
qed

text \<open>
  With a positive block size the loop returns: each round takes a block off the unread
  bytes. It returns 0 exactly when the digest accepts the blocks and the device does
  not fail, and then the context has been fed the whole file.
\<close>

lemma hash_file_loop_returns:
  assumes "0 < n"
  shows "\<not> eof_ind f \<Longrightarrow> \<not> err_ind f \<Longrightarrow>
         \<exists>e c ev. hash_file_loop env n f ctx = Some (e, c, ev)
           \<and> (e = 0) = (EVP_DigestUpdate_ok env \<and> \<not> fails_at_end f)
           \<and> (e = 0 \<longrightarrow> c = ctx @ unread f \<and> ev = [])"
proof (induction "length (unread f)" arbitrary: f ctx rule: less_induct)
  case less
  show ?case
  proof (cases "n \<le> length (unread f)")
    case True
    let ?f' = "f\<lparr>unread := drop n (unread f)\<rparr>"
    show ?thesis
    proof (cases "EVP_DigestUpdate_ok env")
      case False
      with True less.prems show ?thesis
        by (subst hash_file_loop.simps)
           (simp add: fread_def ferror_def crypto_err_def EINVAL_def)
    next
      case ok: True
      have "length (unread ?f') < length (unread f)"
        using True assms by simp
      from less.hyps [OF this, of "ctx @ take n (unread f)"] less.prems
      obtain e c ev where
        r: "hash_file_loop env n ?f' (ctx @ take n (unread f)) = Some (e, c, ev)"
        and e: "(e = 0) = (EVP_DigestUpdate_ok env \<and> \<not> fails_at_end f)"
        and c: "e = 0 \<longrightarrow> c = ctx @ unread f \<and> ev = []"
        by auto
      have "hash_file_loop env n f ctx = hash_file_loop env n ?f' (ctx @ take n (unread f))"
        using True ok less.prems assms
        by (subst hash_file_loop.simps) (simp add: fread_def ferror_def feof_def)
      with r e c show ?thesis by simp
    qed
  next
    case False
    with less.prems assms show ?thesis
      by (subst hash_file_loop.simps)
         (simp add: fread_def ferror_def feof_def crypto_err_def pr_errno_def EINVAL_def)
  qed
qed

text \<open>With a block size of 0 the loop can only leave through an error.\<close>

lemma hash_file_loop_blocksize_0:
  assumes "hash_file_loop env n f ctx = Some r"
  shows "n = 0 \<longrightarrow> \<not> eof_ind f \<longrightarrow> fst r \<noteq> 0"
proof (rule hash_file_loop.raw_induct
    [where P = "\<lambda>env n f ctx r. n = 0 \<longrightarrow> \<not> eof_ind f \<longrightarrow> fst r \<noteq> 0", OF _ assms])
  fix loop :: "hash_env \<Rightarrow> nat \<Rightarrow> FILE_stream \<Rightarrow> byte list \<Rightarrow> (int \<times> byte list \<times> event list) option"
  fix env n f ctx r
  assume "\<And>env n f ctx r. loop env n f ctx = Some r \<Longrightarrow> n = 0 \<longrightarrow> \<not> eof_ind f \<longrightarrow> fst r \<noteq> 0"
    and "(case fread n f of
           (buffer, file') \<Rightarrow>
             if ferror file' \<noteq> 0 then
               Some (ferror file', ctx,
                     pr_errno (ferror file') ''File reading error. Error message (apparently)'')
             else if \<not> EVP_DigestUpdate_ok env then
               (case crypto_err ''EVP_DigestUpdate() failed'' [] of
                  (e, ev) \<Rightarrow> Some (e, ctx, ev))
             else if \<not> feof file' then loop env n file' (ctx @ buffer)
             else Some (0, ctx @ buffer, [])) = Some r"
  then show "n = 0 \<longrightarrow> \<not> eof_ind f \<longrightarrow> fst r \<noteq> 0"
    by (auto simp: fread_def ferror_def feof_def crypto_err_def EINVAL_def split: if_splits)
qed

lemma file_open_eq:
  "file_open env path =
     (fst (file_system env path), fresh_stream (snd (file_system env path)),
      st_blksize (snd (file_system env path)))"
  by (simp add: file_open_def fresh_stream_def split: prod.splits)

lemma loop_fresh_pos:
  "0 < st_blksize f \<Longrightarrow>
   \<exists>e c ev. hash_file_loop env (st_blksize f) (fresh_stream f) [] = Some (e, c, ev)
     \<and> (e = 0) = (EVP_DigestUpdate_ok env \<and> \<not> read_fails f)
     \<and> (e = 0 \<longrightarrow> c = contents f \<and> ev = [])"
  using hash_file_loop_returns [of "st_blksize f" "fresh_stream f" env "[]"]
  by (simp add: fresh_stream_def)

lemma loop_fresh_ok:
  assumes "hash_file_loop env (st_blksize f) (fresh_stream f) [] = Some (0, c, ev)"
  shows "0 < st_blksize f \<and> EVP_DigestUpdate_ok env \<and> \<not> read_fails f
         \<and> c = contents f \<and> ev = []"
proof -
  have pos: "0 < st_blksize f"
    using hash_file_loop_blocksize_0 [OF assms] by (simp add: fresh_stream_def)
  from loop_fresh_pos [OF pos, of env] assms show ?thesis
    using pos by auto
qed

lemma hash_file_returns:
  "0 < st_blksize (snd (file_system env (uri_local uri))) \<Longrightarrow>
   \<exists>e d ev. hash_file env algorithm uri = Some ((e, d), ev)"
  using loop_fresh_pos [of "snd (file_system env (uri_local uri))" env]
  by (auto simp: hash_file_def file_open_eq get_md_def crypto_err_def split: option.splits)

lemma hash_file_ok_iff:
  "(hash_file env algorithm uri = Some ((0, d), ev)) =
     ((\<exists>md. EVP_get_digestbyname env algorithm = Some md
          \<and> d = md (contents (snd (file_system env (uri_local uri)))))
      \<and> fst (file_system env (uri_local uri)) = 0
      \<and> \<not> read_fails (snd (file_system env (uri_local uri)))
      \<and> 0 < st_blksize (snd (file_system env (uri_local uri)))
      \<and> malloc_buffer_ok env \<and> EVP_MD_CTX_new_ok env \<and> EVP_DigestInit_ex_ok env
      \<and> EVP_DigestUpdate_ok env \<and> EVP_DigestFinal_ex_ok env
      \<and> ev = [File_open (uri_local uri), File_close (uri_local uri)])"
  (is "?L = ?R")
proof
  assume ?L
  then show ?R
    by (auto simp: hash_file_def file_open_eq get_md_def crypto_err_def pr_enomem_def
        EINVAL_def ENOMEM_def split: option.splits if_splits dest!: loop_fresh_ok)
next
  assume ?R
  then show ?L
    using loop_fresh_pos [of "snd (file_system env (uri_local uri))" env]
    by (auto simp: hash_file_def file_open_eq get_md_def)
qed

lemma hash_validate_file_ok_iff:
  "(hash_validate_file env algorithm uri expected = Some (0, ev)) =
     (bits_unused expected = 0 \<and> digest_steps_ok env
      \<and> file_matches_hash env algorithm uri expected
      \<and> ev = [File_open (uri_local uri), File_close (uri_local uri)])"
proof (cases "bits_unused expected = 0")
  case False
  then show ?thesis
    by (simp add: hash_validate_file_def pr_err_def EINVAL_def)
next
  case True
  show ?thesis
  proof (cases "hash_file env algorithm uri")
    case None
    with True hash_file_ok_iff [of env algorithm uri "buf expected" ev] show ?thesis
      by (auto simp: hash_validate_file_def file_matches_hash_def digest_steps_ok_def)
  next
    case (Some r)
    obtain e d ev' where r: "r = ((e, d), ev')"
      by (metis surj_pair)
    show ?thesis
    proof (cases "e = 0")
      case False
      with True Some r hash_file_ok_iff [of env algorithm uri "buf expected" ev] show ?thesis
        by (auto simp: hash_validate_file_def file_matches_hash_def digest_steps_ok_def)
    next
      case e: True
      from Some r e hash_file_ok_iff [of env algorithm uri d ev']
      have *: "(\<exists>md. EVP_get_digestbyname env algorithm = Some md
            \<and> d = md (contents (snd (file_system env (uri_local uri)))))
          \<and> fst (file_system env (uri_local uri)) = 0
          \<and> \<not> read_fails (snd (file_system env (uri_local uri)))
          \<and> 0 < st_blksize (snd (file_system env (uri_local uri)))
          \<and> malloc_buffer_ok env \<and> EVP_MD_CTX_new_ok env \<and> EVP_DigestInit_ex_ok env
          \<and> EVP_DigestUpdate_ok env \<and> EVP_DigestFinal_ex_ok env
          \<and> ev' = [File_open (uri_local uri), File_close (uri_local uri)]"
        by simp
      from True Some r e * show ?thesis
        by (auto simp: hash_validate_file_def file_matches_hash_def digest_steps_ok_def
            hash_matches_eq pr_err_def EINVAL_def)
    qed
  qed
qed

lemma hash_validate_file_returns:
  "0 < st_blksize (snd (file_system env (uri_local uri))) \<Longrightarrow>
   \<exists>e ev. hash_validate_file env algorithm uri expected = Some (e, ev)"
  using hash_file_returns [of env uri algorithm]
  by (auto simp: hash_validate_file_def pr_err_def)

lemma example_matches:
  "file_matches_hash example_hash_env ''sha256'' example_uri example_expected"
  "file_matches_hash example_hash_env ''sha256'' example_uri example_expected_unused"
  "\<not> file_matches_hash example_hash_env ''sha256'' example_uri example_expected_other"
  "digest_steps_ok example_hash_env"
  by (simp_all add: file_matches_hash_def digest_steps_ok_def example_hash_env_def
      example_uri_def example_expected_def example_expected_unused_def example_file_def
      example_md_def example_expected_other_def)

text \<open>
  C6, as the code has it. \<^verbatim>\<open>hash_validate_file\<close> returns 0 exactly when the expected
  BIT STRING has no unused bits, the buffer, the digest context and the steps of the
  digest succeed, the file mapped from the URI can be opened and read, the digest
  algorithm is known, and the digest of the whole contents of the file equals the
  expected hash byte for byte. Whenever the file system reports a positive block size
  the function returns, so anything else (a mismatch, a read failure, an unknown
  algorithm, a file that cannot be opened) yields a nonzero error.
\<close>

theorem hash_validate_file_accepts_iff:
  "(\<exists>ev. hash_validate_file env algorithm uri expected = Some (0, ev)) =
     (bits_unused expected = 0 \<and> digest_steps_ok env
      \<and> file_matches_hash env algorithm uri expected)
   \<and> (0 < st_blksize (snd (file_system env (uri_local uri))) \<longrightarrow>
        (\<exists>e ev. hash_validate_file env algorithm uri expected = Some (e, ev)
           \<and> (e = 0) = (bits_unused expected = 0 \<and> digest_steps_ok env
                         \<and> file_matches_hash env algorithm uri expected)))"
proof (intro conjI impI)
  show "(\<exists>ev. hash_validate_file env algorithm uri expected = Some (0, ev)) =
     (bits_unused expected = 0 \<and> digest_steps_ok env
      \<and> file_matches_hash env algorithm uri expected)"
    by (simp add: hash_validate_file_ok_iff)
next
  assume "0 < st_blksize (snd (file_system env (uri_local uri)))"
  from hash_validate_file_returns [OF this, of algorithm expected]
  obtain e ev where r: "hash_validate_file env algorithm uri expected = Some (e, ev)"
    by blast
  have "(e = 0) = (bits_unused expected = 0 \<and> digest_steps_ok env
                         \<and> file_matches_hash env algorithm uri expected)"
    using r hash_validate_file_ok_iff [of env algorithm uri expected ev]
      hash_validate_file_ok_iff [of env algorithm uri expected
        "[File_open (uri_local uri), File_close (uri_local uri)]"]
    by auto
  with r show "\<exists>e ev. hash_validate_file env algorithm uri expected = Some (e, ev)
           \<and> (e = 0) = (bits_unused expected = 0 \<and> digest_steps_ok env
                         \<and> file_matches_hash env algorithm uri expected)"
    by blast
qed

theorem hash_validate_file_accepts_iff_witness:
  "hash_validate_file example_hash_env ''sha256'' example_uri example_expected =
     Some (0, [File_open ''repository/a.roa'', File_close ''repository/a.roa''])
   \<and> 0 < st_blksize (snd (file_system example_hash_env (uri_local example_uri)))
   \<and> hash_validate_file example_hash_env ''sha256'' example_uri example_expected_other =
       Some (- 22, [File_open ''repository/a.roa'', File_close ''repository/a.roa'',
                    Pr_err ''File does not match its hash.'' []])"
proof -
  have pos: "0 < st_blksize (snd (file_system example_hash_env (uri_local example_uri)))"
    by (simp add: example_hash_env_def example_uri_def example_file_def)
  from hash_validate_file_accepts_iff
         [of example_hash_env "''sha256''" example_uri example_expected]
  obtain ev where "hash_validate_file example_hash_env ''sha256'' example_uri example_expected
      = Some (0, ev)"
    using example_matches by (auto simp: example_expected_def)
  then have 1: "hash_validate_file example_hash_env ''sha256'' example_uri example_expected =
     Some (0, [File_open ''repository/a.roa'', File_close ''repository/a.roa''])"
    by (simp add: hash_validate_file_ok_iff example_uri_def)
  have hf: "hash_file example_hash_env ''sha256'' example_uri =
      Some ((0, [3, 6]), [File_open ''repository/a.roa'', File_close ''repository/a.roa''])"
    by (simp add: hash_file_ok_iff)
       (simp add: example_hash_env_def example_uri_def example_file_def example_md_def)
  have 2: "hash_validate_file example_hash_env ''sha256'' example_uri example_expected_other =
       Some (- 22, [File_open ''repository/a.roa'', File_close ''repository/a.roa'',
                    Pr_err ''File does not match its hash.'' []])"
    by (simp add: hash_validate_file_def hf example_expected_other_def hash_matches_def
        pr_err_def EINVAL_def)
  from 1 pos 2 show ?thesis by simp
qed

text \<open>
  C6 as stated fails: the file can be opened and read, the algorithm is known, the
  digest of the contents equals the bytes of the expected hash, every step succeeds,
  and still the function returns \<open>-EINVAL\<close>, because the expected BIT STRING has four
  unused bits.
\<close>

theorem hash_validate_file_unused_bits_counterexample:
  "file_matches_hash example_hash_env ''sha256'' example_uri example_expected_unused
   \<and> digest_steps_ok example_hash_env
   \<and> hash_validate_file example_hash_env ''sha256'' example_uri example_expected_unused =
       Some (- 22, [Pr_err ''Hash string has unused bits.'' []])"
proof -
  have "bits_unused example_expected_unused \<noteq> 0"
    by (simp add: example_expected_unused_def)
  then have "hash_validate_file example_hash_env ''sha256'' example_uri example_expected_unused =
       Some (- 22, [Pr_err ''Hash string has unused bits.'' []])"
    by (simp add: hash_validate_file_def pr_err_def EINVAL_def)
  with example_matches show ?thesis
    by simp
qed

text \<open>
  C10. For every expected hash whose BIT STRING has a nonzero count of unused bits,
  \<^verbatim>\<open>hash_validate_file\<close> returns the nonzero error \<open>-EINVAL\<close>, and all it does is to
  report "Hash string has unused bits.": no file is opened and nothing is hashed,
  whatever the algorithm, the URI, the mirror and the digests are.
\<close>

theorem hash_validate_file_rejects_unused_bits:
  assumes "bits_unused expected \<noteq> 0"
  shows "hash_validate_file env algorithm uri expected =
           Some (- EINVAL, [Pr_err ''Hash string has unused bits.'' []])
         \<and> - EINVAL \<noteq> 0"
  using assms by (simp add: hash_validate_file_def pr_err_def EINVAL_def)

theorem hash_validate_file_rejects_unused_bits_witness:
  "bits_unused example_expected_unused \<noteq> 0
   \<and> hash_validate_file example_hash_env ''md5'' missing_uri example_expected_unused =
       Some (- 22, [Pr_err ''Hash string has unused bits.'' []])"
proof -
  have u: "bits_unused example_expected_unused \<noteq> 0"
    by (simp add: example_expected_unused_def)
  from hash_validate_file_rejects_unused_bits
         [OF u, of example_hash_env "''md5''" missing_uri] u
  show ?thesis
    by (simp add: EINVAL_def)
qed

section \<open>Properties of the broadcast\<close>

lemma send_notify_eq: "send_notify env c serial = ((0, c), notify_events env serial c)"
  by (simp add: send_notify_def notify_events_def pr_warn_def Let_def)

lemma clients_foreach_send_notify:
  "clients_foreach (send_notify env) serial cs =
     ((0, cs), concat (map (notify_events env serial) cs))"
  by (induction cs) (simp_all add: send_notify_eq)

text \<open>
  C7. When the database gives its last serial, \<^verbatim>\<open>notify_clients\<close> reads it once and
  sends a Serial Notify PDU with that serial to every registered client, in the order
  of the registry. A failed send is logged as a warning, right after the PDU of that
  client, and the iteration goes on with the remaining clients. The registry is the
  same afterwards (no client is removed, and nothing but PDUs and warnings happens, so
  none is closed), and the broadcast returns 0.
\<close>

theorem notify_clients_broadcast:
  assumes "get_last_serial_number env = (0, serial)"
  shows "notify_clients env clients =
           ((0, clients), concat (map (notify_events env serial) clients))"
  using assms by (simp add: notify_clients_def clients_foreach_send_notify)

theorem notify_clients_broadcast_witness:
  "get_last_serial_number example_notify_env = (0, 7)
   \<and> notify_clients example_notify_env example_clients =
       ((0, example_clients),
        [Serial_notify_pdu 5 0 7,
         Serial_notify_pdu 6 1 7, Pr_warn ''Error code %d sending notify PDU to client.'' [32],
         Serial_notify_pdu 9 1 7])"
proof -
  have s: "get_last_serial_number example_notify_env = (0, 7)"
    by (simp add: example_notify_env_def)
  have "concat (map (notify_events example_notify_env 7) example_clients) =
        [Serial_notify_pdu 5 0 7,
         Serial_notify_pdu 6 1 7, Pr_warn ''Error code %d sending notify PDU to client.'' [32],
         Serial_notify_pdu 9 1 7]"
    by (simp add: notify_events_def example_clients_def example_notify_env_def)
  with notify_clients_broadcast [OF s, of example_clients] s show ?thesis
    by simp
qed

section \<open>Properties of canonical resource sets\<close>

lemma fuse_head: "\<exists>b' rest. fuse num ((a, b) # rs) = (a, b') # rest"
proof (induction rs arbitrary: b)
  case Nil
  show ?case by simp
next
  case (Cons r rs)
  obtain c d where r: "r = (c, d)" by (cases r)
  show ?case
    unfolding r using Cons [of "if num b \<le> num d then d else b"] by simp
qed

lemma fuse_idem: "fuse num (fuse num rs) = fuse num rs"
proof (induction num rs rule: fuse.induct)
  case (1 num a b c d rs)
  show ?case
  proof (cases "num c \<le> Suc (num b)")
    case True
    with 1 show ?thesis by simp
  next
    case False
    obtain d' rest where h: "fuse num ((c, d) # rs) = (c, d') # rest"
      using fuse_head [of num c d rs] by blast
    have "fuse num ((a, b) # (c, d') # rest) = (a, b) # fuse num ((c, d') # rest)"
      using False by simp
    then have "fuse num ((a, b) # fuse num ((c, d) # rs)) = (a, b) # fuse num ((c, d) # rs)"
      using 1(2) [OF False] h by simp
    with False show ?thesis by simp
  qed
qed simp_all

lemma fuse_starts: "x \<in> set (fuse num rs) \<Longrightarrow> fst x \<in> fst ` set rs"
  by (induction num rs arbitrary: x rule: fuse.induct) (fastforce split: if_splits)+

lemma fuse_sorted:
  "sorted (map (\<lambda>r. num (fst r)) rs) \<Longrightarrow> sorted (map (\<lambda>r. num (fst r)) (fuse num rs))"
proof (induction num rs rule: fuse.induct)
  case (1 num a b c d rs)
  show ?case
  proof (cases "num c \<le> Suc (num b)")
    case True
    with 1(1) [OF True] 1(3) show ?thesis by auto
  next
    case False
    have "\<forall>x \<in> set (fuse num ((c, d) # rs)). num a \<le> num (fst x)"
    proof
      fix x assume "x \<in> set (fuse num ((c, d) # rs))"
      then have "fst x \<in> fst ` set ((c, d) # rs)"
        by (rule fuse_starts)
      with 1(3) show "num a \<le> num (fst x)" by auto
    qed
    with 1(2) [OF False] 1(3) False show ?thesis by simp
  qed
qed simp_all

lemma canonicalize_ranges_idem:
  "canonicalize_ranges num (canonicalize_ranges num rs) = canonicalize_ranges num rs"
proof -
  let ?k = "\<lambda>r. num (fst r)"
  have "sorted (map ?k (fuse num (sort_key ?k rs)))"
    by (rule fuse_sorted) simp
  then have "sort_key ?k (fuse num (sort_key ?k rs)) = fuse num (sort_key ?k rs)"
    by (rule sort_key_id_if_sorted)
  then show ?thesis
    by (simp add: canonicalize_ranges_def fuse_idem)
qed

lemma filter_family_of_bounds:
  "filter (\<lambda>r. ip_family r = g) (map (ip_of_bounds f) xs) =
     (if f = g then map (ip_of_bounds f) xs else [])"
  by (induction xs) (simp_all add: ip_of_bounds_def)

lemma bounds_of_bounds: "map (ip_bounds \<circ> ip_of_bounds f) xs = xs"
  by (induction xs) (simp_all add: ip_bounds_def ip_of_bounds_def)

lemma canonicalize_family_idem:
  "canonicalize_family f (canonicalize_ips rs) = canonicalize_family f rs"
  by (cases f)
     (simp_all add: canonicalize_ips_def canonicalize_family_def filter_family_of_bounds
        bounds_of_bounds canonicalize_ranges_idem)

lemma canonicalize_ips_idem: "canonicalize_ips (canonicalize_ips rs) = canonicalize_ips rs"
proof -
  have "canonicalize_ips (canonicalize_ips rs) =
      canonicalize_family V4 (canonicalize_ips rs) @ canonicalize_family V6 (canonicalize_ips rs)"
    by (rule canonicalize_ips_def)
  also have "\<dots> = canonicalize_family V4 rs @ canonicalize_family V6 rs"
    by (simp only: canonicalize_family_idem)
  also have "\<dots> = canonicalize_ips rs"
    by (simp only: canonicalize_ips_def)
  finally show ?thesis .
qed

lemma canonicalize_example:
  "canonicalize
     \<lparr>ips = [\<lparr>ip_family = V6, ip_start = 4, ip_end = 9\<rparr>,
             \<lparr>ip_family = V4, ip_start = 20, ip_end = 30\<rparr>,
             \<lparr>ip_family = V4, ip_start = 5, ip_end = 19\<rparr>,
             \<lparr>ip_family = V4, ip_start = 1, ip_end = 2\<rparr>],
      asns = [(7, 9), (1, 3), (4, 5), (1, 3)]\<rparr> =
     \<lparr>ips = [\<lparr>ip_family = V4, ip_start = 1, ip_end = 2\<rparr>,
             \<lparr>ip_family = V4, ip_start = 5, ip_end = 30\<rparr>,
             \<lparr>ip_family = V6, ip_start = 4, ip_end = 9\<rparr>],
      asns = [(1, 5), (7, 9)]\<rparr>"
  by (simp add: canonicalize_def canonicalize_ips_def canonicalize_family_def
      canonicalize_ranges_def ip_bounds_def ip_of_bounds_def)

text \<open>
  C8. Canonicalization of resource sets is idempotent: for every resource set \<open>X\<close>, a
  pair of a sequence of IP ranges and a sequence of AS ranges,
  \<open>canonicalize (canonicalize X) = canonicalize X\<close>.
\<close>

theorem canonicalize_idempotent: "canonicalize (canonicalize X) = canonicalize X"
  by (simp add: canonicalize_def canonicalize_ranges_idem canonicalize_ips_idem)

end
